theory Spec2Isabelle
  imports Complex_Main "HOL-Library.AList"
begin

section \<open>Text and numbers of the host language\<close>

text \<open>
  The program is TypeScript. A string is modelled as a \<^typ>\<open>string\<close> whose characters
  are the code units of the text; the model covers the code units below 256 (ASCII and
  Latin-1), which is where every header, label and numeric decoration of the program lives.
  A number is an IEEE double in the program. The model keeps the three non-finite values
  apart and represents a finite double by the exact rational it denotes: the rounding of
  the arithmetic is not modelled, the overflow of a numeric literal to an infinity is, and
  the two zeros are one value.
\<close>

datatype jsnum = Finite rat | PosInfinity | NegInfinity | NaN

fun isFinite :: "jsnum \<Rightarrow> bool" where
  "isFinite (Finite v) = True"
| "isFinite PosInfinity = False"
| "isFinite NegInfinity = False"
| "isFinite NaN = False"

fun negate :: "jsnum \<Rightarrow> jsnum" where
  "negate (Finite v) = Finite (- v)"
| "negate PosInfinity = NegInfinity"
| "negate NegInfinity = PosInfinity"
| "negate NaN = NaN"

text \<open>
  A real number becomes a double by rounding to nearest, ties to even; it becomes an
  infinity exactly when its magnitude reaches \<open>2^1024 - 2^970\<close>, half an ulp above the
  largest finite double.
\<close>

definition overflowThreshold :: rat where
  "overflowThreshold = 2 ^ 1024 - 2 ^ 970"

definition toDouble :: "rat \<Rightarrow> jsnum" where
  "toDouble v =
     (if \<bar>v\<bar> < overflowThreshold then Finite v
      else if 0 < v then PosInfinity else NegInfinity)"

abbreviation TAB :: char where "TAB \<equiv> CHR 0x09"
abbreviation LF :: char where "LF \<equiv> CHR 0x0A"
abbreviation CR :: char where "CR \<equiv> CHR 0x0D"
abbreviation DQUOTE :: char where "DQUOTE \<equiv> CHR 0x22"

text \<open>White space and line terminators of the language, among the code units below 256.\<close>

definition isWhiteSpace :: "char \<Rightarrow> bool" where
  "isWhiteSpace c \<longleftrightarrow>
     c = TAB \<or> c = LF \<or> c = CHR 0x0B \<or> c = CHR 0x0C \<or> c = CR \<or> c = CHR 0x20 \<or> c = CHR 0xA0"

definition trimStart :: "string \<Rightarrow> string" where
  "trimStart s = dropWhile isWhiteSpace s"

definition trimEnd :: "string \<Rightarrow> string" where
  "trimEnd s = rev (dropWhile isWhiteSpace (rev s))"

definition trim :: "string \<Rightarrow> string" where
  "trim s = trimEnd (trimStart s)"

definition toLowerChar :: "char \<Rightarrow> char" where
  "toLowerChar c =
     (let n = (of_char c :: nat)
      in if (65 \<le> n \<and> n \<le> 90) \<or> (192 \<le> n \<and> n \<le> 222 \<and> n \<noteq> 215)
         then char_of (n + 32) else c)"

definition toLowerCase :: "string \<Rightarrow> string" where
  "toLowerCase s = map toLowerChar s"

text \<open>\<open>s.includes(t)\<close>: \<open>t\<close> occurs in \<open>s\<close> as a contiguous run.\<close>

fun startsWith :: "string \<Rightarrow> string \<Rightarrow> bool" where
  "startsWith s [] = True"
| "startsWith [] (t # ts) = False"
| "startsWith (c # cs) (t # ts) = (c = t \<and> startsWith cs ts)"

fun includes_str :: "string \<Rightarrow> string \<Rightarrow> bool" where
  "includes_str [] t = (t = [])"
| "includes_str (c # cs) t = (startsWith (c # cs) t \<or> includes_str cs t)"

subsection \<open>Conversion of text to a number\<close>

text \<open>
  \<open>Number(text)\<close> on a string: surrounding white space is dropped; the empty text is 0;
  a literal is \<open>0x\<close>, \<open>0o\<close> or \<open>0b\<close> followed by digits of that base, or an optionally
  signed decimal literal (\<open>Infinity\<close>, digits with an optional fraction and exponent);
  anything else is \<open>NaN\<close>.
\<close>

definition isDigit :: "char \<Rightarrow> bool" where
  "isDigit c \<longleftrightarrow> 48 \<le> (of_char c :: nat) \<and> (of_char c :: nat) \<le> 57"

definition digitValue :: "char \<Rightarrow> nat" where
  "digitValue c =
     (let n = (of_char c :: nat)
      in if 48 \<le> n \<and> n \<le> 57 then n - 48
         else if 97 \<le> n \<and> n \<le> 102 then n - 87
         else if 65 \<le> n \<and> n \<le> 70 then n - 55
         else 16)"

definition isDigitOf :: "nat \<Rightarrow> char \<Rightarrow> bool" where
  "isDigitOf base c \<longleftrightarrow> digitValue c < base"

definition digitsValue :: "nat \<Rightarrow> string \<Rightarrow> nat" where
  "digitsValue base ds = foldl (\<lambda>a c. a * base + digitValue c) 0 ds"

definition scale10 :: "rat \<Rightarrow> int \<Rightarrow> rat" where
  "scale10 v e = (if 0 \<le> e then v * 10 ^ nat e else v / 10 ^ nat (- e))"

definition exponentPart :: "string \<Rightarrow> int option" where
  "exponentPart s =
     (case s of
        [] \<Rightarrow> Some 0
      | e # r \<Rightarrow>
          if e = CHR ''e'' \<or> e = CHR ''E'' then
            (let sg = (case r of [] \<Rightarrow> (1::int) | c # r' \<Rightarrow> if c = CHR ''-'' then - 1 else 1);
                 ds = (case r of [] \<Rightarrow> [] | c # r' \<Rightarrow> if c = CHR ''+'' \<or> c = CHR ''-'' then r' else r)
             in if ds \<noteq> [] \<and> list_all isDigit ds then Some (sg * int (digitsValue 10 ds))
                else None)
          else None)"

definition unsignedDecimal :: "string \<Rightarrow> jsnum" where
  "unsignedDecimal s =
     (if s = ''Infinity'' then PosInfinity
      else
        let ip = takeWhile isDigit s;
            r1 = dropWhile isDigit s;
            hasDot = (r1 \<noteq> [] \<and> hd r1 = CHR ''.'');
            fp = (if hasDot then takeWhile isDigit (tl r1) else []);
            r2 = (if hasDot then dropWhile isDigit (tl r1) else r1)
        in if ip = [] \<and> fp = [] then NaN
           else case exponentPart r2 of
                  None \<Rightarrow> NaN
                | Some e \<Rightarrow>
                    toDouble (scale10 (of_nat (digitsValue 10 (ip @ fp))) (e - int (length fp))))"

definition nonDecimal :: "nat \<Rightarrow> string \<Rightarrow> jsnum" where
  "nonDecimal base ds =
     (if ds \<noteq> [] \<and> list_all (isDigitOf base) ds then toDouble (of_nat (digitsValue base ds))
      else NaN)"

definition Number_js :: "string \<Rightarrow> jsnum" where
  "Number_js text =
     (let s = trim text
      in if s = [] then Finite 0
         else if startsWith s ''0x'' \<or> startsWith s ''0X'' then nonDecimal 16 (drop 2 s)
         else if startsWith s ''0o'' \<or> startsWith s ''0O'' then nonDecimal 8 (drop 2 s)
         else if startsWith s ''0b'' \<or> startsWith s ''0B'' then nonDecimal 2 (drop 2 s)
         else if hd s = CHR ''+'' then unsignedDecimal (tl s)
         else if hd s = CHR ''-'' then negate (unsignedDecimal (tl s))
         else unsignedDecimal s)"

section \<open>The numeric normalizer\<close>

text \<open>
  \<open>normalize\<close> of \<open>src/lib/leaderboard.ts\<close>. Its argument is never nullish where the
  program calls it: each call site passes a string or writes \<open>v ?? ""\<close>.
\<close>

definition normalize_str :: "string \<Rightarrow> string" where
  "normalize_str s = toLowerCase (trim s)"

text \<open>
  The argument of \<open>parseNumber\<close> is a string, a number, \<open>null\<close> or \<open>undefined\<close>; reading a
  cell that a row does not have gives \<open>undefined\<close>.
\<close>

datatype raw = Nullish | RawNumber jsnum | RawString string

text \<open>The regular expression \<open>/^\(.*\)$/\<close>: the dot matches no line terminator.\<close>

definition parenWrapped :: "string \<Rightarrow> bool" where
  "parenWrapped s \<longleftrightarrow>
     2 \<le> length s \<and> hd s = CHR ''('' \<and> last s = CHR '')'' \<and>
     list_all (\<lambda>c. c \<noteq> LF \<and> c \<noteq> CR) (butlast (tl s))"

definition dropLeading :: "char \<Rightarrow> string \<Rightarrow> string" where
  "dropLeading c s = (if s \<noteq> [] \<and> hd s = c then tl s else s)"

definition dropTrailing :: "char \<Rightarrow> string \<Rightarrow> string" where
  "dropTrailing c s = (if s \<noteq> [] \<and> last s = c then butlast s else s)"

text \<open>The chain of replacements that produces \<open>cleaned\<close> from the trimmed text.\<close>

definition cleaned :: "string \<Rightarrow> string" where
  "cleaned s =
     trim (dropTrailing (CHR ''%'') (dropTrailing (CHR '')'') (dropLeading (CHR ''('')
       (filter (\<lambda>c. c \<noteq> CHR '','' \<and> c \<noteq> CHR ''$'') s))))"

definition parseNumber :: "raw \<Rightarrow> rat option" where
  "parseNumber r =
     (case r of
        Nullish \<Rightarrow> None
      | RawNumber n \<Rightarrow> (case n of Finite v \<Rightarrow> Some v | _ \<Rightarrow> None)
      | RawString str \<Rightarrow>
          (let s = trim str
           in if s = [] then None
              else
                let neg = parenWrapped s
                in case Number_js (cleaned s) of
                     Finite n \<Rightarrow> Some (if neg then - n else n)
                   | _ \<Rightarrow> None))"

section \<open>The tabular text parser\<close>

text \<open>
  \<open>parseCSV\<close>: one scan over the characters. The arguments of \<open>scanCSV\<close> are the text
  from index \<open>i\<close> on and the loop variables \<open>inQuotes\<close>, \<open>cur\<close>, \<open>row\<close> and \<open>rows\<close>;
  \<open>next\<close> is the head of the remaining text, and \<open>i++\<close> inside the body skips it.
  At the end of the text the last cell and the last row are pushed.
\<close>

definition nextIs :: "string \<Rightarrow> char \<Rightarrow> bool" where
  "nextIs text c \<longleftrightarrow> text \<noteq> [] \<and> hd text = c"

fun scanCSV :: "string \<Rightarrow> bool \<Rightarrow> string \<Rightarrow> string list \<Rightarrow> string list list \<Rightarrow> string list list" where
  "scanCSV [] inQuotes cur row rows = rows @ [row @ [cur]]"
| "scanCSV (ch # text) inQuotes cur row rows =
     (if inQuotes then
        (if ch = DQUOTE \<and> nextIs text DQUOTE then scanCSV (tl text) True (cur @ [DQUOTE]) row rows
         else if ch = DQUOTE then scanCSV text False cur row rows
         else scanCSV text True (cur @ [ch]) row rows)
      else if ch = DQUOTE then scanCSV text True cur row rows
      else if ch = CHR '','' then scanCSV text False [] (row @ [cur]) rows
      else if ch = LF \<or> ch = CR then
        scanCSV (if ch = CR \<and> nextIs text LF then tl text else text) False [] []
          (rows @ [row @ [cur]])
      else scanCSV text False (cur @ [ch]) row rows)"

definition blankRow :: "string list \<Rightarrow> bool" where
  "blankRow row = list_all (\<lambda>v. trim v = []) row"

text \<open>The final \<open>while\<close> loop pops the last row as long as it is blank.\<close>

function stripTrailingRows :: "string list list \<Rightarrow> string list list" where
  "stripTrailingRows rows =
     (if rows \<noteq> [] \<and> blankRow (last rows) then stripTrailingRows (butlast rows) else rows)"
  by pat_completeness auto
termination
  by (relation "measure length") auto

declare stripTrailingRows.simps [simp del]

definition parseCSV :: "string \<Rightarrow> string list list" where
  "parseCSV text = stripTrailingRows (scanCSV text False [] [] [])"

text \<open>
  The conversion of sheet values to text in \<open>fetchSheetAsCsvViaSheetsApi\<close>: a cell with a
  quote, a comma or a line feed is quoted with its quotes doubled, the cells of a row are
  joined by commas and the rows by line feeds.
\<close>

fun join :: "string \<Rightarrow> string list \<Rightarrow> string" where
  "join sep [] = []"
| "join sep [x] = x"
| "join sep (x # y # ys) = x @ sep @ join sep (y # ys)"

definition csvCell :: "string \<Rightarrow> string" where
  "csvCell s =
     (if DQUOTE \<in> set s \<or> CHR '','' \<in> set s \<or> LF \<in> set s
      then [DQUOTE] @ concat (map (\<lambda>c. if c = DQUOTE then [DQUOTE, DQUOTE] else [c]) s) @ [DQUOTE]
      else s)"

definition valuesToCsv :: "string list list \<Rightarrow> string" where
  "valuesToCsv values = join [LF] (map (\<lambda>row. join '','' (map csvCell row)) values)"

section \<open>Labels and header rows\<close>

text \<open>\<open>row[i]\<close> is \<open>undefined\<close> outside the row, and at the index \<open>-1\<close> of a failed search.\<close>

definition cellAt :: "string list \<Rightarrow> nat option \<Rightarrow> raw" where
  "cellAt row col =
     (case col of
        None \<Rightarrow> Nullish
      | Some i \<Rightarrow> if i < length row then RawString (row ! i) else Nullish)"

text \<open>\<open>v ?? ""\<close>.\<close>

fun orEmpty :: "raw \<Rightarrow> string" where
  "orEmpty (RawString s) = s"
| "orEmpty r = []"

fun findIndex :: "('a \<Rightarrow> bool) \<Rightarrow> 'a list \<Rightarrow> nat option" where
  "findIndex P [] = None"
| "findIndex P (x # xs) = (if P x then Some 0 else map_option Suc (findIndex P xs))"

definition indexOf :: "'a list \<Rightarrow> 'a \<Rightarrow> nat option" where
  "indexOf xs v = findIndex (\<lambda>x. x = v) xs"

text \<open>
  \<open>findCellAdjacentToLabel\<close>: rows from the top, cells from the left; the first cell
  whose normalised text is the target decides, with the cell to its right.
\<close>

fun labelInRow :: "string list \<Rightarrow> string \<Rightarrow> rat option option" where
  "labelInRow [] target = None"
| "labelInRow (cell # rest) target =
     (if normalize_str cell = target
      then Some (parseNumber (cellAt rest (Some 0)))
      else labelInRow rest target)"

fun labelInRows :: "string list list \<Rightarrow> string \<Rightarrow> rat option" where
  "labelInRows [] target = None"
| "labelInRows (row # rows) target =
     (case labelInRow row target of
        Some v \<Rightarrow> v
      | None \<Rightarrow> labelInRows rows target)"

definition findCellAdjacentToLabel :: "string list list \<Rightarrow> string \<Rightarrow> rat option" where
  "findCellAdjacentToLabel grid label = labelInRows grid (normalize_str label)"

text \<open>
  \<open>findHeaderRow\<close>. \<open>colIndexByHeader\<close> is an object keyed by header text: an association
  list with one entry for each key, so that the number of its keys is its length. The
  loop over the required headers stops at the first header that the row does not have.
\<close>

definition dateTimeLike :: "string \<Rightarrow> bool" where
  "dateTimeLike x \<longleftrightarrow> includes_str x ''date'' \<and> includes_str x ''time''"

fun collectHeaders :: "string list \<Rightarrow> string list \<Rightarrow> (string \<times> nat) list \<Rightarrow> (string \<times> nat) list" where
  "collectHeaders row [] colIndexByHeader = colIndexByHeader"
| "collectHeaders row (header # rest) colIndexByHeader =
     (case indexOf row header of
        None \<Rightarrow>
          (if dateTimeLike header then
             (case findIndex dateTimeLike row of
                Some altIdx \<Rightarrow> collectHeaders row rest (AList.update header altIdx colIndexByHeader)
              | None \<Rightarrow> colIndexByHeader)
           else colIndexByHeader)
      | Some idx \<Rightarrow> collectHeaders row rest (AList.update header idx colIndexByHeader))"

record headerRow =
  rowIndex :: nat
  colIndexByHeader :: "(string \<times> nat) list"

function findHeaderRowFrom :: "string list list \<Rightarrow> string list \<Rightarrow> nat \<Rightarrow> headerRow option" where
  "findHeaderRowFrom grid required r =
     (if r < length grid then
        (if length (collectHeaders (map normalize_str (grid ! r)) required []) = length required
         then Some \<lparr>rowIndex = r,
                    colIndexByHeader = collectHeaders (map normalize_str (grid ! r)) required []\<rparr>
         else findHeaderRowFrom grid required (Suc r))
      else None)"
  by pat_completeness auto
termination
  by (relation "measure (\<lambda>(grid, required, r). length grid - r)") auto

declare findHeaderRowFrom.simps [simp del]

definition findHeaderRow :: "string list list \<Rightarrow> string list \<Rightarrow> headerRow option" where
  "findHeaderRow grid requiredHeaders = findHeaderRowFrom grid (map normalize_str requiredHeaders) 0"

section \<open>The section extractors\<close>

subsection \<open>Open positions\<close>

record position =
  quantity :: rat
  openPrice :: "rat option"
  currentPrice :: "rat option"
  unrealizedGain :: "rat option"

record openPositions =
  positions :: "position list"
  unrealizedTotal :: rat

text \<open>
  A column of the header is read from \<open>colIndexByHeader\<close>; a key that is not there gives
  \<open>undefined\<close>, and a row read at \<open>undefined\<close> gives \<open>undefined\<close>.
\<close>

definition numberAt :: "string list \<Rightarrow> nat option \<Rightarrow> rat option" where
  "numberAt row col = parseNumber (cellAt row col)"

text \<open>
  \<open>u ?? (qty && o !== null && cp !== null ? qty * (cp - o) : 0)\<close>: a quantity of 0 is
  falsy, so the product is only formed for a non-zero quantity.
\<close>

definition unrealOf :: "rat \<Rightarrow> rat option \<Rightarrow> rat option \<Rightarrow> rat option \<Rightarrow> rat" where
  "unrealOf qty opn cp u =
     (case u of
        Some v \<Rightarrow> v
      | None \<Rightarrow>
          (case opn of
             None \<Rightarrow> 0
           | Some ov \<Rightarrow>
               (case cp of
                  None \<Rightarrow> 0
                | Some cv \<Rightarrow> if qty \<noteq> 0 then qty * (cv - ov) else 0)))"

definition qtyOf :: "rat option \<Rightarrow> rat" where
  "qtyOf q = (case q of Some v \<Rightarrow> v | None \<Rightarrow> 0)"

function positionsLoop ::
  "string list list \<Rightarrow> nat option \<Rightarrow> nat option \<Rightarrow> nat option \<Rightarrow> nat option \<Rightarrow> nat \<Rightarrow> nat \<Rightarrow>
     openPositions \<Rightarrow> openPositions" where
  "positionsLoop grid qCol oCol cCol uCol start r acc =
     (if r < length grid then
        (if numberAt (grid ! r) qCol = None \<and> numberAt (grid ! r) oCol = None \<and>
            numberAt (grid ! r) cCol = None \<and> numberAt (grid ! r) uCol = None
         then (if r > start + 2 then acc
               else positionsLoop grid qCol oCol cCol uCol start (Suc r) acc)
         else
           positionsLoop grid qCol oCol cCol uCol start (Suc r)
             \<lparr>positions = positions acc @
                [\<lparr>quantity = qtyOf (numberAt (grid ! r) qCol),
                  openPrice = numberAt (grid ! r) oCol,
                  currentPrice = numberAt (grid ! r) cCol,
                  unrealizedGain =
                    Some (unrealOf (qtyOf (numberAt (grid ! r) qCol)) (numberAt (grid ! r) oCol)
                            (numberAt (grid ! r) cCol) (numberAt (grid ! r) uCol))\<rparr>],
              unrealizedTotal = unrealizedTotal acc +
                unrealOf (qtyOf (numberAt (grid ! r) qCol)) (numberAt (grid ! r) oCol)
                  (numberAt (grid ! r) cCol) (numberAt (grid ! r) uCol)\<rparr>)
      else acc)"
  by pat_completeness auto
termination
  by (relation "measure (\<lambda>(grid, qCol, oCol, cCol, uCol, start, r, acc). length grid - r)") auto

declare positionsLoop.simps [simp del]

definition openHeaders :: "string list" where
  "openHeaders = [''quantity'', ''open price'', ''current price'', ''unrealized gain'']"

definition parseOpenPositions :: "string list list \<Rightarrow> openPositions" where
  "parseOpenPositions grid =
     (case findHeaderRow grid openHeaders of
        None \<Rightarrow> \<lparr>positions = [], unrealizedTotal = 0\<rparr>
      | Some header \<Rightarrow>
          positionsLoop grid
            (map_of (colIndexByHeader header) ''quantity'')
            (map_of (colIndexByHeader header) ''open price'')
            (map_of (colIndexByHeader header) ''current price'')
            (map_of (colIndexByHeader header) ''unrealized gain'')
            (rowIndex header + 1) (rowIndex header + 1)
            \<lparr>positions = [], unrealizedTotal = 0\<rparr>)"

subsection \<open>Journal totals\<close>

record details =
  creditsTotal :: rat
  debitsTotal :: rat

record journalTotals = details +
  trades :: nat
  lastActivity :: "string option"

definition journalHeaders :: "string list" where
  "journalHeaders =
     [''action'', ''date & time'', ''total $ received'', ''status'', ''action'', ''date & time'',
      ''total $ paid'']"

definition addTo :: "rat \<Rightarrow> rat option \<Rightarrow> rat" where
  "addTo acc n = (case n of Some v \<Rightarrow> acc + v | None \<Rightarrow> acc)"

definition anyAction :: "string list \<Rightarrow> bool" where
  "anyAction rr = list_ex (\<lambda>cell. normalize_str cell \<noteq> [] \<and> normalize_str cell \<noteq> ''0'') rr"

definition emptyTail :: "string list list \<Rightarrow> nat \<Rightarrow> bool" where
  "emptyTail grid r = list_all (\<lambda>x. list_all (\<lambda>y. trim y = []) x) (take 10 (drop r grid))"

text \<open>
  The loop of the primary path, below a combined header row. A column that the header row
  does not have is \<open>None\<close> (the index \<open>-1\<close> of the program).
\<close>

function journalLoop ::
  "string list list \<Rightarrow> nat option \<Rightarrow> nat option \<Rightarrow> nat option \<Rightarrow> nat \<Rightarrow> nat \<Rightarrow>
     journalTotals \<Rightarrow> journalTotals" where
  "journalLoop grid receivedCol paidCol dateCol start r acc =
     (if r < length grid then
        (if (receivedCol = None \<or> numberAt (grid ! r) receivedCol = None) \<and>
            (paidCol = None \<or> numberAt (grid ! r) paidCol = None) \<and> r > start + 20 \<and>
            emptyTail grid r
         then
           \<lparr>creditsTotal = creditsTotal acc, debitsTotal = debitsTotal acc, trades = trades acc,
            lastActivity =
              (if dateCol \<noteq> None \<and> trim (orEmpty (cellAt (grid ! r) dateCol)) \<noteq> []
               then Some (trim (orEmpty (cellAt (grid ! r) dateCol))) else lastActivity acc)\<rparr>
         else
           journalLoop grid receivedCol paidCol dateCol start (Suc r)
             \<lparr>creditsTotal =
                addTo (creditsTotal acc)
                  (if receivedCol = None then None else numberAt (grid ! r) receivedCol),
              debitsTotal =
                addTo (debitsTotal acc) (if paidCol = None then None else numberAt (grid ! r) paidCol),
              trades =
                (if anyAction (grid ! r) \<and>
                    ((receivedCol \<noteq> None \<and> numberAt (grid ! r) receivedCol \<noteq> None) \<or>
                     (paidCol \<noteq> None \<and> numberAt (grid ! r) paidCol \<noteq> None))
                 then trades acc + 1 else trades acc),
              lastActivity =
                (if dateCol \<noteq> None \<and> trim (orEmpty (cellAt (grid ! r) dateCol)) \<noteq> []
                 then Some (trim (orEmpty (cellAt (grid ! r) dateCol))) else lastActivity acc)\<rparr>)
      else acc)"
  by pat_completeness auto
termination
  by (relation "measure (\<lambda>(grid, receivedCol, paidCol, dateCol, start, r, acc). length grid - r)") auto

declare journalLoop.simps [simp del]

text \<open>The rightmost column of the header row with both "date" and "time", if there is one.\<close>

definition dateColumn :: "string list \<Rightarrow> nat option" where
  "dateColumn row =
     (case filter (\<lambda>idx. dateTimeLike (row ! idx)) [0 ..< length row] of
        [] \<Rightarrow> None
      | idx # idxs \<Rightarrow> Some (fold max idxs idx))"

text \<open>
  The loops of the fallback path: the first row with one of the two total headers, and
  below it every row to the end of the grid.
\<close>

function fallbackSum ::
  "string list list \<Rightarrow> nat option \<Rightarrow> nat option \<Rightarrow> nat \<Rightarrow> journalTotals \<Rightarrow> journalTotals" where
  "fallbackSum grid receivedCol paidCol i acc =
     (if i < length grid then
        fallbackSum grid receivedCol paidCol (Suc i)
          \<lparr>creditsTotal =
             (if receivedCol \<noteq> None then addTo (creditsTotal acc) (numberAt (grid ! i) receivedCol)
              else creditsTotal acc),
           debitsTotal =
             (if paidCol \<noteq> None then addTo (debitsTotal acc) (numberAt (grid ! i) paidCol)
              else debitsTotal acc),
           trades =
             (if trim (case cellAt (grid ! i) receivedCol of
                         RawString s \<Rightarrow> s
                       | _ \<Rightarrow> orEmpty (cellAt (grid ! i) paidCol)) \<noteq> []
              then trades acc + 1 else trades acc),
           lastActivity = lastActivity acc\<rparr>
      else acc)"
  by pat_completeness auto
termination
  by (relation "measure (\<lambda>(grid, receivedCol, paidCol, i, acc). length grid - i)") auto

declare fallbackSum.simps [simp del]

function fallbackFrom :: "string list list \<Rightarrow> nat \<Rightarrow> journalTotals \<Rightarrow> journalTotals" where
  "fallbackFrom grid r acc =
     (if r < length grid then
        (if indexOf (map normalize_str (grid ! r)) ''total $ received'' \<noteq> None \<or>
            indexOf (map normalize_str (grid ! r)) ''total $ paid'' \<noteq> None
         then fallbackSum grid (indexOf (map normalize_str (grid ! r)) ''total $ received'')
                (indexOf (map normalize_str (grid ! r)) ''total $ paid'') (r + 1) acc
         else fallbackFrom grid (Suc r) acc)
      else acc)"
  by pat_completeness auto
termination
  by (relation "measure (\<lambda>(grid, r, acc). length grid - r)") auto

declare fallbackFrom.simps [simp del]

definition noTotals :: journalTotals where
  "noTotals = \<lparr>creditsTotal = 0, debitsTotal = 0, trades = 0, lastActivity = None\<rparr>"

definition parseJournalTotals :: "string list list \<Rightarrow> journalTotals" where
  "parseJournalTotals grid =
     (case findHeaderRow grid journalHeaders of
        Some header \<Rightarrow>
          journalLoop grid
            (indexOf (map normalize_str (grid ! rowIndex header)) ''total $ received'')
            (indexOf (map normalize_str (grid ! rowIndex header)) ''total $ paid'')
            (dateColumn (map normalize_str (grid ! rowIndex header)))
            (rowIndex header + 1) (rowIndex header + 1) noTotals
      | None \<Rightarrow> fallbackFrom grid 0 noTotals)"

section \<open>The aggregator\<close>

record statsArgs =
  name :: string
  csvText :: string
  initialCapital :: jsnum

record playerStats =
  name :: string
  realizedPL :: rat
  unrealizedPL :: rat
  totalPL :: rat
  returnPct :: rat
  equity :: rat
  trades :: nat
  lastActivity :: "string option"
  details :: details

text \<open>\<open>Number.isFinite(x) && x > 0 ? x : 10000\<close>.\<close>

definition initialOf :: "jsnum \<Rightarrow> rat" where
  "initialOf c = (case c of Finite v \<Rightarrow> if 0 < v then v else 10000 | _ \<Rightarrow> 10000)"

definition realizedOf :: "rat option \<Rightarrow> journalTotals \<Rightarrow> rat" where
  "realizedOf realizedFromLabel journal =
     (case realizedFromLabel of
        Some v \<Rightarrow> v
      | None \<Rightarrow> creditsTotal journal - debitsTotal journal)"

definition computePlayerStatsFromSheetCSV :: "'a statsArgs_scheme \<Rightarrow> playerStats" where
  "computePlayerStatsFromSheetCSV args =
     (let grid = parseCSV (csvText args);
          realizedFromLabel = findCellAdjacentToLabel grid ''Realized P/L:'';
          opens = parseOpenPositions grid;
          journal = parseJournalTotals grid;
          realizedPL = realizedOf realizedFromLabel journal;
          unrealizedPL = unrealizedTotal opens;
          totalPL = realizedPL + unrealizedPL;
          initial = initialOf (initialCapital args);
          returnPct = totalPL / initial;
          equity = initial + totalPL
      in \<lparr>name = statsArgs.name args,
          realizedPL = realizedPL,
          unrealizedPL = unrealizedPL,
          totalPL = totalPL,
          returnPct = returnPct,
          equity = equity,
          trades = journalTotals.trades journal,
          lastActivity = journalTotals.lastActivity journal,
          details = \<lparr>creditsTotal = creditsTotal journal, debitsTotal = debitsTotal journal\<rparr>\<rparr>)"

section \<open>Notions of the specification\<close>

text \<open>
  The definitions of this section follow the words of the specification; the properties
  below compare them with the program.
\<close>

text \<open>A character that the parser copies to the current cell outside quotes.\<close>

definition plainChar :: "char \<Rightarrow> bool" where
  "plainChar c \<longleftrightarrow> c \<noteq> CHR '','' \<and> c \<noteq> DQUOTE \<and> c \<noteq> LF \<and> c \<noteq> CR"

text \<open>
  A grid that the round trip is about: every row has a cell, and no cell has a comma, a
  quote, a line feed or a carriage return.
\<close>

definition plainGrid :: "string list list \<Rightarrow> bool" where
  "plainGrid grid = list_all (\<lambda>row. row \<noteq> [] \<and> list_all (list_all plainChar) row) grid"

text \<open>
  A journal sheet with one combined header row (two sections sharing the row) and two rows
  of trades; the second trade has no amount received.
\<close>

definition journalSheet :: "string list list" where
  "journalSheet =
     [[''Action'', ''Date & Time'', ''Total $ Received'', ''Status'', ''Action'', ''Date & Time'',
       ''Total $ Paid''],
      [''Sell'', ''2024-01-01 10:00'', ''100'', ''ok'', ''Buy'', ''2024-01-02 11:00'', ''50''],
      [''Sell'', ''2024-01-03 10:00'', [], ''ok'', ''Buy'', ''2024-01-04 11:00'', ''50'']]"

text \<open>
  The labelled value: the cells of the grid in reading order, each with the cell to its
  right; the first cell that is the label, after trimming and ignoring case, decides, and
  the value is the normalized number of the cell to its right.
\<close>

definition withRight :: "string list \<Rightarrow> (string \<times> raw) list" where
  "withRight row = zip row (map RawString (tl row) @ [Nullish])"

definition labelledValue :: "string list list \<Rightarrow> string \<Rightarrow> rat option" where
  "labelledValue grid label =
     (case find (\<lambda>(cell, right). toLowerCase (trim cell) = toLowerCase (trim label))
             (concat (map withRight grid)) of
        None \<Rightarrow> None
      | Some (cell, right) \<Rightarrow> parseNumber right)"

text \<open>Two sheets as text: a journal alone, and a sheet with the label twice.\<close>

definition journalOnlyText :: string where
  "journalOnlyText = ''Total $ Received,Total $ Paid'' @ [LF] @ ''1000,400''"

definition labelledText :: string where
  "labelledText = ''x, realized p/l: ,$2500'' @ [LF] @ ''Realized P/L:,1''"

text \<open>
  Open positions. A row is a header row when its normalised cells contain the four
  headers. Below the header, with the four columns of the header: a row is
  absent when none of its four cells is a number; the quantity of a row is 0 when its
  cell is not a number; the gain of a row is its gain cell when that is a number, else the
  quantity times the difference of current and open price when both are numbers, else 0.
  The rows that are read are the rows among the first three that are not absent, and
  then the rows up to the first absent one; \<open>rowsReadFrom\<close> is the same from the
  \<open>k\<close>-th row below the header on.
\<close>

definition isOpenHeaderRow :: "string list \<Rightarrow> bool" where
  "isOpenHeaderRow row = list_all (\<lambda>h. h \<in> set (map normalize_str row)) openHeaders"

definition absentAt :: "nat option \<Rightarrow> nat option \<Rightarrow> nat option \<Rightarrow> nat option \<Rightarrow> string list \<Rightarrow> bool" where
  "absentAt qCol oCol cCol uCol row \<longleftrightarrow>
     numberAt row qCol = None \<and> numberAt row oCol = None \<and> numberAt row cCol = None \<and>
     numberAt row uCol = None"

definition gainAt :: "nat option \<Rightarrow> nat option \<Rightarrow> nat option \<Rightarrow> nat option \<Rightarrow> string list \<Rightarrow> rat" where
  "gainAt qCol oCol cCol uCol row =
     (case numberAt row uCol of
        Some g \<Rightarrow> g
      | None \<Rightarrow>
          (case numberAt row oCol of
             None \<Rightarrow> 0
           | Some ov \<Rightarrow>
               (case numberAt row cCol of
                  None \<Rightarrow> 0
                | Some cv \<Rightarrow> qtyOf (numberAt row qCol) * (cv - ov))))"

definition positionAt :: "nat option \<Rightarrow> nat option \<Rightarrow> nat option \<Rightarrow> nat option \<Rightarrow> string list \<Rightarrow> position" where
  "positionAt qCol oCol cCol uCol row =
     \<lparr>quantity = qtyOf (numberAt row qCol),
      openPrice = numberAt row oCol,
      currentPrice = numberAt row cCol,
      unrealizedGain = Some (gainAt qCol oCol cCol uCol row)\<rparr>"

definition rowsReadFrom :: "(string list \<Rightarrow> bool) \<Rightarrow> nat \<Rightarrow> string list list \<Rightarrow> string list list" where
  "rowsReadFrom absent k below =
     filter (\<lambda>row. \<not> absent row) (take (3 - k) below) @
     takeWhile (\<lambda>row. \<not> absent row) (drop (3 - k) below)"

definition rowsRead :: "(string list \<Rightarrow> bool) \<Rightarrow> string list list \<Rightarrow> string list list" where
  "rowsRead absent below = rowsReadFrom absent 0 below"

text \<open>The sheet of the example: the header row and two rows of positions.\<close>

definition positionsSheet :: "string list list" where
  "positionsSheet =
     [[''Quantity'', ''Open Price'', ''Current Price'', ''Unrealized Gain''],
      [''10'', ''5'', ''7'', []],
      [''-5'', [], [], ''20'']]"

section \<open>Properties of the tabular text parser\<close>

lemma stripTrailingRows_snoc:
  "stripTrailingRows (rows @ [row]) = (if blankRow row then stripTrailingRows rows else rows @ [row])"
  by (subst stripTrailingRows.simps) simp

lemma stripTrailingRows_eq: "stripTrailingRows rows = rev (dropWhile blankRow (rev rows))"
proof (induction rows rule: rev_induct)
  case Nil
  show ?case by (subst stripTrailingRows.simps) simp
next
  case (snoc row rows)
  then show ?case by (simp add: stripTrailingRows_snoc)
qed

lemmas text_eval = trim_def trimStart_def trimEnd_def isWhiteSpace_def

lemma char_of_nat_eval:
  "char_of (n::nat) = Char (odd n) (odd (n div 2)) (odd (n div 4)) (odd (n div 8))
     (odd (n div 16)) (odd (n div 32)) (odd (n div 64)) (odd (n div 128))"
  by (simp add: char_of_def bit_iff_odd)

lemmas normalize_eval =
  normalize_str_def toLowerCase_def toLowerChar_def char_of_nat_eval text_eval

lemmas csv_eval = parseCSV_def stripTrailingRows_eq blankRow_def nextIs_def text_eval

text \<open>
  Claim C7. Quoting and line endings: the text \<open>a,"b,c",d\<close> parses to the one row
  \<open>a | b,c | d\<close>; the text \<open>a,"b""c",d\<close> parses to the one row \<open>a | b"c | d\<close>; and the
  two texts \<open>a,b CR LF c,d\<close> and \<open>a,b LF c,d\<close> parse to the same grid of two rows.
\<close>

theorem parseCSV_quoting_and_line_endings:
  "parseCSV (''a,'' @ [DQUOTE] @ ''b,c'' @ [DQUOTE] @ '',d'') = [[''a'', ''b,c'', ''d'']] \<and>
   parseCSV (''a,'' @ [DQUOTE] @ ''b'' @ [DQUOTE, DQUOTE] @ ''c'' @ [DQUOTE] @ '',d'')
     = [[''a'', ''b'' @ [DQUOTE] @ ''c'', ''d'']] \<and>
   parseCSV (''a,b'' @ [CR, LF] @ ''c,d'') = parseCSV (''a,b'' @ [LF] @ ''c,d'') \<and>
   parseCSV (''a,b'' @ [LF] @ ''c,d'') = [[''a'', ''b''], [''c'', ''d'']]"
  by (simp add: csv_eval)

section \<open>Properties of the numeric normalizer\<close>

text \<open>Every number of moderate size is below the overflow threshold of a double.\<close>

lemma overflowThreshold_ge: "2 ^ 64 \<le> overflowThreshold"
proof -
  define A :: rat where "A = 2 ^ 970"
  have e: "(1024::nat) = 970 + 54" by simp
  have "(2::rat) ^ 1024 = A * 2 ^ 54"
    unfolding A_def by (subst e) (rule power_add)
  then have t: "overflowThreshold = A * (2 ^ 54 - 1)"
    unfolding overflowThreshold_def A_def [symmetric] by (simp add: algebra_simps)
  have A64: "(2::rat) ^ 64 \<le> A"
    unfolding A_def by (rule power_increasing) simp_all
  have "0 \<le> A" unfolding A_def by (rule zero_le_power) simp
  then have "A * 1 \<le> A * (2 ^ 54 - 1)"
    by (intro mult_left_mono) simp_all
  with A64 t show ?thesis by simp
qed

lemma toDouble_small: "\<bar>v\<bar> < 2 ^ 64 \<Longrightarrow> toDouble v = Finite v"
  using overflowThreshold_ge by (simp add: toDouble_def)

lemmas number_eval =
  parseNumber_def parenWrapped_def cleaned_def dropLeading_def dropTrailing_def Number_js_def
  unsignedDecimal_def isDigit_def exponentPart_def toDouble_small scale10_def digitsValue_def
  digitValue_def nonDecimal_def isDigitOf_def text_eval

text \<open>The normalizer gives absent for exactly the texts below; it has no other failure.\<close>

lemma parseNumber_absent_iff:
  "parseNumber (RawString s) = None \<longleftrightarrow>
     trim s = [] \<or> \<not> isFinite (Number_js (cleaned (trim s)))"
  by (cases "Number_js (cleaned (trim s))") (simp_all add: parseNumber_def Let_def)

text \<open>The five examples of the normalizer.\<close>

lemma parseNumber_examples:
  "parseNumber (RawString ''$1,234.50'') = Some 1234.5"
  "parseNumber (RawString ''(500)'') = Some (- 500)"
  "parseNumber (RawString ''12%'') = Some 12"
  "parseNumber (RawString []) = None"
  "parseNumber (RawString ''abc'') = None"
  by (simp_all add: number_eval)

text \<open>
  Claim C6. The normalizer maps \<open>$1,234.50\<close> to 1234.5, \<open>(500)\<close> to -500, \<open>12%\<close> to 12,
  the empty text and \<open>abc\<close> to absent, and every malformed text to absent. The examples
  hold (\<open>parseNumber_examples\<close>), and the function is total, with absent as its only
  failure (\<open>parseNumber_absent_iff\<close>). The text \<open>$\<close> is not a
  number, yet it is not absent: the test for the empty text is made before the decoration
  is stripped, the stripped text is empty, and the conversion of the empty text is 0. The
  same holds for \<open>()\<close>.
\<close>

theorem parseNumber_decoration_only:
  "cleaned (trim ''$'') = [] \<and> parseNumber (RawString ''$'') = Some 0 \<and>
   parseNumber (RawString ''()'') = Some 0"
  by (simp add: number_eval)

lemma parenWrappedI:
  assumes "list_all (\<lambda>c. c \<noteq> LF \<and> c \<noteq> CR) inner"
  shows "parenWrapped (CHR ''('' # inner @ '')'')"
  using assms by (simp add: parenWrapped_def butlast_append)

lemma cleaned_wrapped:
  "cleaned (CHR ''('' # inner @ '')'') =
     trim (dropTrailing (CHR ''%'') (filter (\<lambda>c. c \<noteq> CHR '','' \<and> c \<noteq> CHR ''$'') inner))"
  by (simp add: cleaned_def dropLeading_def dropTrailing_def butlast_append)

text \<open>
  Claim C2, as amended. When the trimmed text is \<open>(inner)\<close>, \<open>inner\<close> has no line
  terminator, and \<open>inner\<close> without its commas, dollar signs and one trailing percent sign
  converts to the finite number \<open>n\<close>, the normalizer returns \<open>- n\<close>: the value is negated,
  whatever its sign, so \<open>(-5)\<close> gives 5.
\<close>

theorem parseNumber_paren_negates:
  assumes "trim s = CHR ''('' # inner @ '')''"
    and "list_all (\<lambda>c. c \<noteq> LF \<and> c \<noteq> CR) inner"
    and "Number_js (trim (dropTrailing (CHR ''%'')
           (filter (\<lambda>c. c \<noteq> CHR '','' \<and> c \<noteq> CHR ''$'') inner))) = Finite n"
  shows "parseNumber (RawString s) = Some (- n)"
  using assms parenWrappedI [of inner] cleaned_wrapped [of inner]
  by (simp add: parseNumber_def)

theorem parseNumber_paren_negates_witness:
  "trim '' ($1,234.50)'' = CHR ''('' # ''$1,234.50'' @ '')'' \<and>
   parseNumber (RawString '' ($1,234.50)'') = Some (- 1234.5) \<and>
   parseNumber (RawString ''(-5)'') = Some (- (- 5))"
  using parseNumber_paren_negates [of "'' ($1,234.50)''" "''$1,234.50''" "1234.5"]
    parseNumber_paren_negates [of "''(-5)''" "''-5''" "- 5"]
  by (simp add: number_eval)

text \<open>
  Claim C2 as stated fails: \<open>(-5)\<close> is wrapped in parentheses and its inner text converts
  to -5, of magnitude 5; the result is 5, not -5. A line feed between the parentheses
  switches the negation off: \<open>( LF 5)\<close> gives 5.
\<close>

theorem parseNumber_paren_minus_counterexample:
  "trim ''(-5)'' = CHR ''('' # ''-5'' @ '')'' \<and> Number_js ''-5'' = Finite (- 5) \<and>
   parseNumber (RawString ''(-5)'') = Some 5 \<and>
   parseNumber (RawString ''(-5)'') \<noteq> Some (- \<bar>- 5\<bar>) \<and>
   parseNumber (RawString (''('' @ [LF] @ ''5)'')) = Some 5"
  by (simp add: number_eval)

section \<open>The round trip through text\<close>

lemma scanCSV_plain:
  "list_all plainChar cell \<Longrightarrow>
   scanCSV (cell @ rest) False cur row rows = scanCSV rest False (cur @ cell) row rows"
  by (induction cell arbitrary: cur) (simp_all add: plainChar_def)

text \<open>
  A row of plain cells, joined by commas: the scan pushes all its cells but the last,
  which stays in the current cell.
\<close>

lemma scanCSV_row:
  assumes "list_all (list_all plainChar) (c # cells)"
  shows "scanCSV (join '','' (c # cells) @ rest) False cur row rows =
         scanCSV rest False (last ((cur @ c) # cells)) (row @ butlast ((cur @ c) # cells)) rows"
  using assms
proof (induction cells arbitrary: c cur row)
  case Nil
  then show ?case by (simp add: scanCSV_plain)
next
  case (Cons d cells)
  have "scanCSV (join '','' (c # d # cells) @ rest) False cur row rows
        = scanCSV (CHR '','' # join '','' (d # cells) @ rest) False (cur @ c) row rows"
    using Cons.prems by (simp add: scanCSV_plain)
  also have "\<dots> = scanCSV (join '','' (d # cells) @ rest) False [] (row @ [cur @ c]) rows"
    by simp
  also have "\<dots> = scanCSV rest False (last (([] @ d) # cells))
                     ((row @ [cur @ c]) @ butlast (([] @ d) # cells)) rows"
    using Cons.prems by (intro Cons.IH) simp
  finally show ?case by simp
qed

lemma csvCell_plain: "list_all plainChar cell \<Longrightarrow> csvCell cell = cell"
  by (auto simp: csvCell_def plainChar_def list_all_iff)

lemma scanCSV_rows:
  assumes "plainGrid (g # gs)"
  shows "scanCSV (join [LF] (map (join '','') (g # gs))) False [] [] rows = rows @ g # gs"
  using assms
proof (induction gs arbitrary: g rows)
  case Nil
  then obtain c cells where g: "g = c # cells" by (cases g) (auto simp: plainGrid_def)
  with Nil have "list_all (list_all plainChar) (c # cells)" by (simp add: plainGrid_def)
  from scanCSV_row [OF this, of "[]" "[]" "[]" rows] show ?case
    by (simp add: g)
next
  case (Cons g' gs)
  then obtain c cells where g: "g = c # cells" by (cases g) (auto simp: plainGrid_def)
  with Cons.prems have "list_all (list_all plainChar) (c # cells)" by (simp add: plainGrid_def)
  from scanCSV_row [OF this, of "LF # join [LF] (map (join '','') (g' # gs))" "[]" "[]" rows]
  have "scanCSV (join [LF] (map (join '','') (g # g' # gs))) False [] [] rows
        = scanCSV (join [LF] (map (join '','') (g' # gs))) False [] [] (rows @ [g])"
    by (simp add: g)
  also have "\<dots> = (rows @ [g]) @ g' # gs"
    using Cons.prems by (intro Cons.IH) (simp add: plainGrid_def)
  finally show ?case by simp
qed

lemma valuesToCsv_plain:
  assumes "plainGrid grid"
  shows "valuesToCsv grid = join [LF] (map (join '','') grid)"
proof -
  have "map csvCell row = row" if "row \<in> set grid" for row
    using that assms by (auto simp: plainGrid_def list_all_iff csvCell_plain intro: map_idI)
  then show ?thesis by (simp add: valuesToCsv_def cong: map_cong)
qed

text \<open>
  Claim C8, as amended. For every grid whose rows all have at least one cell and whose
  cells contain no comma, quote, line feed or carriage return, rendering the rows as
  comma-joined lines joined by line feeds and parsing the text gives the grid without its
  trailing blank rows.
\<close>

theorem parseCSV_round_trip:
  assumes "plainGrid grid"
  shows "parseCSV (valuesToCsv grid) = rev (dropWhile blankRow (rev grid))"
proof (cases grid)
  case Nil
  then show ?thesis
    by (simp add: valuesToCsv_def csv_eval)
next
  case (Cons g gs)
  with assms scanCSV_rows [of g gs "[]"] show ?thesis
    by (simp add: valuesToCsv_plain parseCSV_def stripTrailingRows_eq)
qed

theorem parseCSV_round_trip_witness:
  "plainGrid [[''a'', ''b''], [''c''], ['' '']] \<and>
   valuesToCsv [[''a'', ''b''], [''c''], ['' '']] = ''a,b'' @ [LF] @ ''c'' @ [LF] @ '' '' \<and>
   parseCSV (valuesToCsv [[''a'', ''b''], [''c''], ['' '']]) = [[''a'', ''b''], [''c'']]"
  using parseCSV_round_trip [of "[[''a'', ''b''], [''c''], ['' '']]"]
  by (simp add: plainGrid_def plainChar_def valuesToCsv_def csvCell_def blankRow_def text_eval)

text \<open>
  Claim C8 as stated fails on a row without cells, which is rendered like a row with one
  empty cell, and on a cell with a carriage return, which the parser takes for the end
  of a row.
\<close>

theorem parseCSV_round_trip_counterexample:
  "parseCSV (valuesToCsv [[], [''a'']]) = [[[]], [''a'']] \<and>
   rev (dropWhile blankRow (rev [[], [''a'']])) = [[], [''a'']] \<and>
   parseCSV (valuesToCsv [[''a'' @ [CR] @ ''b'']]) = [[''a''], [''b'']] \<and>
   rev (dropWhile blankRow (rev [[''a'' @ [CR] @ ''b'']])) = [[''a'' @ [CR] @ ''b'']]"
  by (simp add: valuesToCsv_def csvCell_def csv_eval)

section \<open>Properties of the header search and of the journal extractor\<close>

lemma collectHeaders_keys:
  "fst ` set (collectHeaders row required d) \<subseteq> fst ` set d \<union> set required"
proof (induction required arbitrary: d)
  case Nil
  show ?case by simp
next
  case (Cons header rest)
  show ?case
    using Cons.IH [of "AList.update header i d" for i]
    by (auto simp: dom_update split: option.splits)
qed

lemma collectHeaders_distinct:
  "distinct (map fst d) \<Longrightarrow> distinct (map fst (collectHeaders row required d))"
  by (induction required arbitrary: d) (auto simp: distinct_update split: option.splits)

text \<open>The object has at most one key for each different required header.\<close>

lemma collectHeaders_length:
  "length (collectHeaders row required []) \<le> card (set required)"
proof -
  let ?d = "collectHeaders row required []"
  have "distinct (map fst ?d)" by (rule collectHeaders_distinct) simp
  then have "length ?d = card (fst ` set ?d)"
    by (metis distinct_card length_map set_map)
  also have "\<dots> \<le> card (set required)"
    using collectHeaders_keys [of row required "[]"] by (intro card_mono) auto
  finally show ?thesis .
qed

text \<open>A list of required headers that names a header twice matches no row.\<close>

lemma findHeaderRowFrom_duplicates:
  "\<not> distinct required \<Longrightarrow> findHeaderRowFrom grid required r = None"
proof (induction grid required r rule: findHeaderRowFrom.induct)
  case (1 grid required r)
  have "card (set required) < length required"
    using "1.prems" card_distinct [of required] card_length [of required] by force
  then have "length (collectHeaders row required []) \<noteq> length required" for row
    using collectHeaders_length [of row required] by simp
  with 1 show ?case
    by (subst findHeaderRowFrom.simps) simp
qed

lemma journalHeaders_not_distinct: "\<not> distinct (map normalize_str journalHeaders)"
  by (simp add: journalHeaders_def normalize_eval)

lemma findHeaderRow_journal: "findHeaderRow grid journalHeaders = None"
  by (simp add: findHeaderRow_def findHeaderRowFrom_duplicates journalHeaders_not_distinct)

lemma parseJournalTotals_fallback: "parseJournalTotals grid = fallbackFrom grid 0 noTotals"
  by (simp add: parseJournalTotals_def findHeaderRow_journal)

lemma fallbackSum_lastActivity:
  "journalTotals.lastActivity (fallbackSum grid receivedCol paidCol i acc) = journalTotals.lastActivity acc"
proof (induction grid receivedCol paidCol i acc rule: fallbackSum.induct)
  case (1 grid receivedCol paidCol i acc)
  then show ?case by (subst fallbackSum.simps) simp
qed

lemma fallbackFrom_lastActivity:
  "journalTotals.lastActivity (fallbackFrom grid r acc) = journalTotals.lastActivity acc"
proof (induction grid r acc rule: fallbackFrom.induct)
  case (1 grid r acc)
  then show ?case by (subst fallbackFrom.simps) (simp add: fallbackSum_lastActivity)
qed

text \<open>
  Claim C10. For every input text the combined-header search of the journal extractor
  fails, because its list of seven required headers names two of them twice and the
  matches are keyed by header text; the extractor takes the fallback path, which never
  sets the last activity; so the last activity of the statistics record is absent.
\<close>

theorem lastActivity_always_absent:
  "findHeaderRow (parseCSV (csvText args)) journalHeaders = None \<and>
   parseJournalTotals (parseCSV (csvText args)) = fallbackFrom (parseCSV (csvText args)) 0 noTotals \<and>
   playerStats.lastActivity (computePlayerStatsFromSheetCSV args) = None"
  by (simp add: findHeaderRow_journal parseJournalTotals_fallback computePlayerStatsFromSheetCSV_def
      Let_def fallbackFrom_lastActivity noTotals_def)

lemmas cell_eval = numberAt_def cellAt_def addTo_def indexOf_def number_eval normalize_eval

text \<open>
  Claim C1. On a grid with a combined header row the journal extractor should take the
  primary path: count a row as a trade when it has a cell that is neither empty nor 0 and
  one of its two amounts is a number, and report the last non-blank cell of the rightmost
  date-and-time column as the last activity. On \<open>journalSheet\<close> the header search
  fails, the fallback path runs, one trade is counted and the last activity is absent;
  the loop of the primary path, run below row 0 with the columns of that row, counts two
  trades and reports the last activity \<open>2024-01-04 11:00\<close>.
\<close>

theorem journalSheet_takes_fallback:
  "findHeaderRow journalSheet journalHeaders = None \<and>
   parseJournalTotals journalSheet =
     \<lparr>creditsTotal = 100, debitsTotal = 100, journalTotals.trades = 1,
      journalTotals.lastActivity = None\<rparr> \<and>
   journalLoop journalSheet
     (indexOf (map normalize_str (journalSheet ! 0)) ''total $ received'')
     (indexOf (map normalize_str (journalSheet ! 0)) ''total $ paid'')
     (dateColumn (map normalize_str (journalSheet ! 0))) 1 1 noTotals =
     \<lparr>creditsTotal = 100, debitsTotal = 100, journalTotals.trades = 2,
      journalTotals.lastActivity = Some ''2024-01-04 11:00''\<rparr>"
proof -
  have "fallbackFrom journalSheet 0 noTotals =
     \<lparr>creditsTotal = 100, debitsTotal = 100, journalTotals.trades = 1,
      journalTotals.lastActivity = None\<rparr>"
    by (simp add: journalSheet_def noTotals_def fallbackFrom.simps fallbackSum.simps cell_eval)
  moreover have "dateColumn (map normalize_str (journalSheet ! 0)) = Some 5"
    by (simp add: journalSheet_def dateColumn_def dateTimeLike_def normalize_eval upt_rec)
  moreover have "indexOf (map normalize_str (journalSheet ! 0)) ''total $ received'' = Some 2"
    and "indexOf (map normalize_str (journalSheet ! 0)) ''total $ paid'' = Some 6"
    by (simp_all add: journalSheet_def indexOf_def normalize_eval)
  moreover have "journalLoop journalSheet (Some 2) (Some 6) (Some 5) 1 1 noTotals
      = \<lparr>creditsTotal = 100, debitsTotal = 100, journalTotals.trades = 2,
         journalTotals.lastActivity = Some ''2024-01-04 11:00''\<rparr>"
    by (simp add: journalSheet_def noTotals_def journalLoop.simps anyAction_def cell_eval)
  ultimately show ?thesis
    by (simp add: findHeaderRow_journal parseJournalTotals_fallback)
qed

section \<open>Properties of the aggregator\<close>

lemma withRight_Cons:
  "withRight (cell # rest) = (cell, cellAt rest (Some 0)) # withRight rest"
  by (cases rest) (simp_all add: withRight_def cellAt_def)

lemma labelInRow_find:
  "labelInRow row target =
     map_option (\<lambda>(cell, right). parseNumber right)
       (find (\<lambda>(cell, right). normalize_str cell = target) (withRight row))"
proof (induction row)
  case Nil
  show ?case by (simp add: withRight_def)
next
  case (Cons cell rest)
  then show ?case by (simp add: withRight_Cons)
qed

lemma find_append_cases:
  "find P (xs @ ys) = (case find P xs of None \<Rightarrow> find P ys | Some x \<Rightarrow> Some x)"
  by (induction xs) simp_all

lemma labelInRows_find:
  "labelInRows grid target =
     (case find (\<lambda>(cell, right). normalize_str cell = target) (concat (map withRight grid)) of
        None \<Rightarrow> None
      | Some (cell, right) \<Rightarrow> parseNumber right)"
proof (induction grid)
  case Nil
  show ?case by simp
next
  case (Cons row grid)
  then show ?case
    by (simp add: labelInRow_find find_append_cases split: option.splits)
qed

lemma findCellAdjacentToLabel_labelledValue:
  "findCellAdjacentToLabel grid label = labelledValue grid label"
  by (simp add: findCellAdjacentToLabel_def labelledValue_def labelInRows_find normalize_str_def)

text \<open>
  Claim C3. The realized profit of the statistics record is the normalized number to the
  right of the first cell that matches the label \<open>Realized P/L:\<close> (trimmed, ignoring
  case) when that number is present; otherwise it is the credits total minus the debits
  total of the journal, which are the two totals of the record's details.
\<close>

theorem realizedPL_label_or_journal:
  "realizedPL (computePlayerStatsFromSheetCSV args) =
     (case labelledValue (parseCSV (csvText args)) ''Realized P/L:'' of
        Some v \<Rightarrow> v
      | None \<Rightarrow>
          creditsTotal (details (computePlayerStatsFromSheetCSV args)) -
          debitsTotal (details (computePlayerStatsFromSheetCSV args))) \<and>
   creditsTotal (details (computePlayerStatsFromSheetCSV args)) =
     creditsTotal (parseJournalTotals (parseCSV (csvText args))) \<and>
   debitsTotal (details (computePlayerStatsFromSheetCSV args)) =
     debitsTotal (parseJournalTotals (parseCSV (csvText args)))"
  by (simp add: computePlayerStatsFromSheetCSV_def Let_def realizedOf_def
      findCellAdjacentToLabel_labelledValue split: option.splits)

text \<open>
  With no label and a journal of credits 1000 and debits 400 the realized profit is 600;
  with the label followed by 2500 it is 2500.
\<close>

theorem realizedPL_label_or_journal_witness:
  "labelledValue (parseCSV journalOnlyText) ''Realized P/L:'' = None \<and>
   details (computePlayerStatsFromSheetCSV
     \<lparr>statsArgs.name = ''T'', csvText = journalOnlyText, initialCapital = Finite 10000\<rparr>)
     = \<lparr>creditsTotal = 1000, debitsTotal = 400\<rparr> \<and>
   realizedPL (computePlayerStatsFromSheetCSV
     \<lparr>statsArgs.name = ''T'', csvText = journalOnlyText, initialCapital = Finite 10000\<rparr>)
     = 600 \<and>
   realizedPL (computePlayerStatsFromSheetCSV
     \<lparr>statsArgs.name = ''T'', csvText = labelledText, initialCapital = Finite 10000\<rparr>)
     = 2500"
proof -
  have g: "parseCSV journalOnlyText = [[''Total $ Received'', ''Total $ Paid''], [''1000'', ''400'']]"
    by (simp add: journalOnlyText_def csv_eval)
  have j: "parseJournalTotals [[''Total $ Received'', ''Total $ Paid''], [''1000'', ''400'']] =
      \<lparr>creditsTotal = 1000, debitsTotal = 400, journalTotals.trades = 1,
       journalTotals.lastActivity = None\<rparr>"
    by (simp add: parseJournalTotals_fallback noTotals_def fallbackFrom.simps fallbackSum.simps
        cell_eval)
  have l: "labelledValue [[''Total $ Received'', ''Total $ Paid''], [''1000'', ''400'']]
      ''Realized P/L:'' = None"
    by (simp add: labelledValue_def withRight_def normalize_eval)
  have h: "parseCSV labelledText = [[''x'', '' realized p/l: '', ''$2500''], [''Realized P/L:'', ''1'']]"
    by (simp add: labelledText_def csv_eval)
  have m: "labelledValue [[''x'', '' realized p/l: '', ''$2500''], [''Realized P/L:'', ''1'']]
      ''Realized P/L:'' = Some 2500"
    by (simp add: labelledValue_def withRight_def cell_eval)
  show ?thesis
    using realizedPL_label_or_journal
      [of "\<lparr>statsArgs.name = ''T'', csvText = journalOnlyText, initialCapital = Finite 10000\<rparr>"]
      realizedPL_label_or_journal
      [of "\<lparr>statsArgs.name = ''T'', csvText = labelledText, initialCapital = Finite 10000\<rparr>"]
    by (simp add: g j l h m)
qed

text \<open>
  Claim C5. The total profit is the realized plus the unrealized profit. When the supplied
  initial capital is a finite positive number \<open>v\<close>, the return is the total profit
  divided by \<open>v\<close> and the equity is \<open>v\<close> plus the total profit; when it is not a finite
  positive number, 10000 takes its place in both.
\<close>

theorem capital_default_and_derived_fields:
  "totalPL (computePlayerStatsFromSheetCSV args) =
     realizedPL (computePlayerStatsFromSheetCSV args) +
     unrealizedPL (computePlayerStatsFromSheetCSV args) \<and>
   (\<forall>v. initialCapital args = Finite v \<and> 0 < v \<longrightarrow>
      returnPct (computePlayerStatsFromSheetCSV args) =
        totalPL (computePlayerStatsFromSheetCSV args) / v \<and>
      equity (computePlayerStatsFromSheetCSV args) =
        v + totalPL (computePlayerStatsFromSheetCSV args)) \<and>
   ((\<nexists>v. initialCapital args = Finite v \<and> 0 < v) \<longrightarrow>
      returnPct (computePlayerStatsFromSheetCSV args) =
        totalPL (computePlayerStatsFromSheetCSV args) / 10000 \<and>
      equity (computePlayerStatsFromSheetCSV args) =
        10000 + totalPL (computePlayerStatsFromSheetCSV args))"
  by (cases "initialCapital args")
     (simp_all add: computePlayerStatsFromSheetCSV_def Let_def initialOf_def)

text \<open>
  On the journal of credits 1000 and debits 400, whose total profit is 600: a capital of
  0, a negative capital and a capital that is not a number all give the return 600 / 10000
  and the equity 10600; the capital 20000 gives the return 600 / 20000 and the equity 20600.
\<close>

theorem capital_default_and_derived_fields_witness:
  "totalPL (computePlayerStatsFromSheetCSV
     \<lparr>statsArgs.name = ''T'', csvText = journalOnlyText, initialCapital = Finite 0\<rparr>) = 600 \<and>
   returnPct (computePlayerStatsFromSheetCSV
     \<lparr>statsArgs.name = ''T'', csvText = journalOnlyText, initialCapital = Finite 0\<rparr>)
     = 600 / 10000 \<and>
   equity (computePlayerStatsFromSheetCSV
     \<lparr>statsArgs.name = ''T'', csvText = journalOnlyText, initialCapital = Finite (- 5)\<rparr>)
     = 10600 \<and>
   returnPct (computePlayerStatsFromSheetCSV
     \<lparr>statsArgs.name = ''T'', csvText = journalOnlyText, initialCapital = NaN\<rparr>)
     = 600 / 10000 \<and>
   returnPct (computePlayerStatsFromSheetCSV
     \<lparr>statsArgs.name = ''T'', csvText = journalOnlyText, initialCapital = Finite 20000\<rparr>)
     = 600 / 20000 \<and>
   equity (computePlayerStatsFromSheetCSV
     \<lparr>statsArgs.name = ''T'', csvText = journalOnlyText, initialCapital = Finite 20000\<rparr>)
     = 20600"
proof -
  have g: "parseCSV journalOnlyText = [[''Total $ Received'', ''Total $ Paid''], [''1000'', ''400'']]"
    by (simp add: journalOnlyText_def csv_eval)
  have j: "parseJournalTotals [[''Total $ Received'', ''Total $ Paid''], [''1000'', ''400'']] =
      \<lparr>creditsTotal = 1000, debitsTotal = 400, journalTotals.trades = 1,
       journalTotals.lastActivity = None\<rparr>"
    by (simp add: parseJournalTotals_fallback noTotals_def fallbackFrom.simps fallbackSum.simps
        cell_eval)
  have l: "findCellAdjacentToLabel [[''Total $ Received'', ''Total $ Paid''], [''1000'', ''400'']]
      ''Realized P/L:'' = None"
    by (simp add: findCellAdjacentToLabel_def normalize_eval)
  have p: "parseOpenPositions [[''Total $ Received'', ''Total $ Paid''], [''1000'', ''400'']]
      = \<lparr>positions = [], unrealizedTotal = 0\<rparr>"
    by (simp add: parseOpenPositions_def findHeaderRow_def openHeaders_def
        findHeaderRowFrom.simps indexOf_def dateTimeLike_def normalize_eval)
  have t: "totalPL (computePlayerStatsFromSheetCSV
      \<lparr>statsArgs.name = ''T'', csvText = journalOnlyText, initialCapital = c\<rparr>) = 600" for c
    by (simp add: computePlayerStatsFromSheetCSV_def Let_def realizedOf_def g j l p)
  show ?thesis
    using
      capital_default_and_derived_fields
        [of "\<lparr>statsArgs.name = ''T'', csvText = journalOnlyText, initialCapital = Finite 0\<rparr>"]
      capital_default_and_derived_fields
        [of "\<lparr>statsArgs.name = ''T'', csvText = journalOnlyText, initialCapital = Finite (- 5)\<rparr>"]
      capital_default_and_derived_fields
        [of "\<lparr>statsArgs.name = ''T'', csvText = journalOnlyText, initialCapital = NaN\<rparr>"]
      capital_default_and_derived_fields
        [of "\<lparr>statsArgs.name = ''T'', csvText = journalOnlyText, initialCapital = Finite 20000\<rparr>"]
    by (simp add: t)
qed

text \<open>
  Claim C9. The statistics record is a function of the name, the text and the initial
  capital alone: two calls whose arguments agree on these three give the same record,
  whatever else the argument objects carry.
\<close>

theorem computePlayerStats_deterministic:
  assumes "statsArgs.name a = statsArgs.name b"
    and "csvText a = csvText b"
    and "initialCapital a = initialCapital b"
  shows "computePlayerStatsFromSheetCSV a = computePlayerStatsFromSheetCSV b"
  using assms by (simp add: computePlayerStatsFromSheetCSV_def)

theorem computePlayerStats_deterministic_witness:
  "computePlayerStatsFromSheetCSV
     \<lparr>statsArgs.name = ''T'', csvText = journalOnlyText, initialCapital = Finite 10000\<rparr> =
   computePlayerStatsFromSheetCSV
     \<lparr>statsArgs.name = ''T'', csvText = journalOnlyText, initialCapital = Finite 10000,
      \<dots> = ''extra''\<rparr>"
  using computePlayerStats_deterministic
    [of "\<lparr>statsArgs.name = ''T'', csvText = journalOnlyText, initialCapital = Finite 10000\<rparr>"
        "\<lparr>statsArgs.name = ''T'', csvText = journalOnlyText, initialCapital = Finite 10000,
          \<dots> = ''extra''\<rparr>"]
  by simp

section \<open>Properties of the open-positions extractor\<close>

lemma gainAt_unrealOf:
  "unrealOf (qtyOf (numberAt row qCol)) (numberAt row oCol) (numberAt row cCol) (numberAt row uCol)
     = gainAt qCol oCol cCol uCol row"
  by (simp add: unrealOf_def gainAt_def qtyOf_def split: option.splits)

lemma positionsLoop_step:
  "positionsLoop grid qCol oCol cCol uCol start r acc =
     (if r < length grid then
        (if absentAt qCol oCol cCol uCol (grid ! r)
         then (if r > start + 2 then acc
               else positionsLoop grid qCol oCol cCol uCol start (Suc r) acc)
         else positionsLoop grid qCol oCol cCol uCol start (Suc r)
                \<lparr>positions = positions acc @ [positionAt qCol oCol cCol uCol (grid ! r)],
                 unrealizedTotal = unrealizedTotal acc + gainAt qCol oCol cCol uCol (grid ! r)\<rparr>)
      else acc)"
  by (subst positionsLoop.simps) (simp add: absentAt_def positionAt_def gainAt_unrealOf)

lemma rowsReadFrom_Nil: "rowsReadFrom absent k [] = []"
  by (simp add: rowsReadFrom_def)

lemma rowsReadFrom_absent_late:
  "absent row \<Longrightarrow> 2 < k \<Longrightarrow> rowsReadFrom absent k (row # rows) = []"
  by (simp add: rowsReadFrom_def)

lemma rowsReadFrom_absent_early:
  assumes "absent row" and "k \<le> 2"
  shows "rowsReadFrom absent k (row # rows) = rowsReadFrom absent (Suc k) rows"
proof -
  from assms obtain n where "3 - k = Suc n" and "3 - Suc k = n"
    by (cases "3 - k") auto
  with assms show ?thesis by (simp add: rowsReadFrom_def)
qed

lemma rowsReadFrom_present:
  assumes "\<not> absent row"
  shows "rowsReadFrom absent k (row # rows) = row # rowsReadFrom absent (Suc k) rows"
proof (cases "3 - k")
  case 0
  then have "3 - Suc k = 0" by simp
  with 0 assms show ?thesis by (simp add: rowsReadFrom_def)
next
  case (Suc n)
  then have "3 - Suc k = n" by simp
  with Suc assms show ?thesis by (simp add: rowsReadFrom_def)
qed

text \<open>
  The loop from row \<open>r\<close> on, \<open>r - start\<close> rows below the start: it appends the rows read to
  the positions and their gains to the total.
\<close>

lemma positionsLoop_rows:
  assumes "start \<le> r"
  shows "positionsLoop grid qCol oCol cCol uCol start r acc =
     \<lparr>positions = positions acc @
        map (positionAt qCol oCol cCol uCol)
          (rowsReadFrom (absentAt qCol oCol cCol uCol) (r - start) (drop r grid)),
      unrealizedTotal = unrealizedTotal acc +
        sum_list (map (gainAt qCol oCol cCol uCol)
          (rowsReadFrom (absentAt qCol oCol cCol uCol) (r - start) (drop r grid)))\<rparr>"
  using assms
proof (induction grid qCol oCol cCol uCol start r acc rule: positionsLoop.induct)
  case (1 grid qCol oCol cCol uCol start r acc)
  have s: "Suc r - start = Suc (r - start)" using "1.prems" by simp
  show ?case
  proof (cases "r < length grid")
    case False
    then show ?thesis
      by (subst positionsLoop_step) (simp add: rowsReadFrom_Nil)
  next
    case inside: True
    then have d: "drop r grid = grid ! r # drop (Suc r) grid"
      by (simp add: Cons_nth_drop_Suc)
    show ?thesis
    proof (cases "absentAt qCol oCol cCol uCol (grid ! r)")
      case absent: True
      show ?thesis
      proof (cases "r > start + 2")
        case True
        then have "2 < r - start" by simp
        with absent inside True show ?thesis
          by (subst positionsLoop_step) (simp add: d rowsReadFrom_absent_late)
      next
        case False
        then have k: "r - start \<le> 2" by simp
        have ab: "numberAt (grid ! r) qCol = None \<and> numberAt (grid ! r) oCol = None \<and>
            numberAt (grid ! r) cCol = None \<and> numberAt (grid ! r) uCol = None"
          using absent by (simp add: absentAt_def)
        have le: "start \<le> Suc r" using "1.prems" by simp
        note "1.IH"(1) [OF inside ab False le]
        with absent False inside k show ?thesis
          by (subst positionsLoop_step) (simp add: d s rowsReadFrom_absent_early)
      qed
    next
      case present: False
      have np: "\<not> (numberAt (grid ! r) qCol = None \<and> numberAt (grid ! r) oCol = None \<and>
            numberAt (grid ! r) cCol = None \<and> numberAt (grid ! r) uCol = None)"
        using present by (simp add: absentAt_def)
      have le: "start \<le> Suc r" using "1.prems" by simp
      note "1.IH"(2) [OF inside np le, unfolded gainAt_unrealOf, folded positionAt_def]
      with present inside show ?thesis
        by (subst positionsLoop_step) (simp add: d s rowsReadFrom_present)
    qed
  qed
qed

lemma findIndex_None: "findIndex P xs = None \<longleftrightarrow> \<not> list_ex P xs"
  by (induction xs) simp_all

lemma indexOf_None: "indexOf xs v = None \<longleftrightarrow> v \<notin> set xs"
  by (simp add: indexOf_def findIndex_None list_ex_iff)

text \<open>
  The four headers of the open positions are different and none is a date-and-time
  header, so the object gets one key for each header until one is missing.
\<close>

lemma collectHeaders_open:
  "collectHeaders row openHeaders [] =
     (case indexOf row ''quantity'' of
        None \<Rightarrow> []
      | Some qi \<Rightarrow>
          (case indexOf row ''open price'' of
             None \<Rightarrow> [(''quantity'', qi)]
           | Some oi \<Rightarrow>
               (case indexOf row ''current price'' of
                  None \<Rightarrow> [(''quantity'', qi), (''open price'', oi)]
                | Some ci \<Rightarrow>
                    (case indexOf row ''unrealized gain'' of
                       None \<Rightarrow> [(''quantity'', qi), (''open price'', oi), (''current price'', ci)]
                     | Some ui \<Rightarrow>
                         [(''quantity'', qi), (''open price'', oi), (''current price'', ci),
                          (''unrealized gain'', ui)]))))"
  by (simp add: openHeaders_def dateTimeLike_def split: option.splits)

lemma collectHeaders_open_length:
  "length (collectHeaders row openHeaders []) = length openHeaders \<longleftrightarrow>
     list_all (\<lambda>h. h \<in> set row) openHeaders"
proof -
  have a: "length (collectHeaders row openHeaders []) = 4 \<longleftrightarrow>
     indexOf row ''quantity'' \<noteq> None \<and> indexOf row ''open price'' \<noteq> None \<and>
     indexOf row ''current price'' \<noteq> None \<and> indexOf row ''unrealized gain'' \<noteq> None"
    by (simp add: collectHeaders_open split: option.splits)
  have b: "length openHeaders = 4"
    by (simp add: openHeaders_def)
  have c: "list_all (\<lambda>h. h \<in> set row) openHeaders \<longleftrightarrow>
     ''quantity'' \<in> set row \<and> ''open price'' \<in> set row \<and>
     ''current price'' \<in> set row \<and> ''unrealized gain'' \<in> set row"
    by (simp add: openHeaders_def)
  show ?thesis
    unfolding b c a by (simp add: indexOf_None)
qed

lemma collectHeaders_open_columns:
  assumes "list_all (\<lambda>h. h \<in> set row) openHeaders"
  shows "map_of (collectHeaders row openHeaders []) ''quantity'' = indexOf row ''quantity''"
    and "map_of (collectHeaders row openHeaders []) ''open price'' = indexOf row ''open price''"
    and "map_of (collectHeaders row openHeaders []) ''current price'' = indexOf row ''current price''"
    and "map_of (collectHeaders row openHeaders []) ''unrealized gain'' = indexOf row ''unrealized gain''"
proof -
  from assms obtain qi oi ci ui where
    "indexOf row ''quantity'' = Some qi" "indexOf row ''open price'' = Some oi"
    "indexOf row ''current price'' = Some ci" "indexOf row ''unrealized gain'' = Some ui"
    using indexOf_None [of row] by (fastforce simp: openHeaders_def)
  then show
    "map_of (collectHeaders row openHeaders []) ''quantity'' = indexOf row ''quantity''"
    "map_of (collectHeaders row openHeaders []) ''open price'' = indexOf row ''open price''"
    "map_of (collectHeaders row openHeaders []) ''current price'' = indexOf row ''current price''"
    "map_of (collectHeaders row openHeaders []) ''unrealized gain'' = indexOf row ''unrealized gain''"
    by (simp_all add: collectHeaders_open)
qed

text \<open>The header search returns the first row that has every required header.\<close>

lemma findHeaderRowFrom_first:
  assumes "r \<le> h" and "h < length grid"
    and "length (collectHeaders (map normalize_str (grid ! h)) required []) = length required"
    and "\<forall>k. r \<le> k \<and> k < h \<longrightarrow>
           length (collectHeaders (map normalize_str (grid ! k)) required []) \<noteq> length required"
  shows "findHeaderRowFrom grid required r =
     Some \<lparr>rowIndex = h,
           colIndexByHeader = collectHeaders (map normalize_str (grid ! h)) required []\<rparr>"
  using assms
proof (induction grid required r rule: findHeaderRowFrom.induct)
  case (1 grid required r)
  show ?case
  proof (cases "r = h")
    case True
    with 1 show ?thesis by (subst findHeaderRowFrom.simps) simp
  next
    case False
    with "1.prems" have lt: "r < h" "r < length grid" by simp_all
    with "1.prems" have
      no: "length (collectHeaders (map normalize_str (grid ! r)) required []) \<noteq> length required"
      by simp
    have "findHeaderRowFrom grid required (Suc r) =
       Some \<lparr>rowIndex = h,
             colIndexByHeader = collectHeaders (map normalize_str (grid ! h)) required []\<rparr>"
      using lt no "1.prems" by (intro "1.IH") simp_all
    with lt no show ?thesis by (subst findHeaderRowFrom.simps) simp
  qed
qed

lemma normalize_openHeaders: "map normalize_str openHeaders = openHeaders"
  by (simp add: openHeaders_def normalize_eval)

lemma findHeaderRow_open:
  assumes "h < length grid" and "isOpenHeaderRow (grid ! h)"
    and "\<forall>k<h. \<not> isOpenHeaderRow (grid ! k)"
  shows "findHeaderRow grid openHeaders =
     Some \<lparr>rowIndex = h,
           colIndexByHeader = collectHeaders (map normalize_str (grid ! h)) openHeaders []\<rparr>"
  unfolding findHeaderRow_def normalize_openHeaders
  using assms
  by (intro findHeaderRowFrom_first) (simp_all add: collectHeaders_open_length isOpenHeaderRow_def)

text \<open>
  Claim C4. In a grid whose first open-positions header row is row \<open>h\<close>, with the columns
  of the four headers in that row: the rows read below the header are the rows among the
  first three (positions up to \<open>start + 2\<close>) that are not all-absent and then the rows up
  to the first all-absent one; each row read gives a position whose quantity is 0 when
  absent and whose gain is the gain cell when present, else the quantity times the
  difference of current and open price when both are present, else 0; the unrealized
  total is the sum of these gains.
\<close>

theorem parseOpenPositions_rows:
  assumes "h < length grid" and "isOpenHeaderRow (grid ! h)"
    and "\<forall>k<h. \<not> isOpenHeaderRow (grid ! k)"
  shows
    "(let hdr = map normalize_str (grid ! h);
          qCol = indexOf hdr ''quantity'';
          oCol = indexOf hdr ''open price'';
          cCol = indexOf hdr ''current price'';
          uCol = indexOf hdr ''unrealized gain'';
          rows = rowsRead (absentAt qCol oCol cCol uCol) (drop (h + 1) grid)
      in parseOpenPositions grid =
           \<lparr>positions = map (positionAt qCol oCol cCol uCol) rows,
            unrealizedTotal = sum_list (map (gainAt qCol oCol cCol uCol) rows)\<rparr>)"
proof -
  have "list_all (\<lambda>x. x \<in> set (map normalize_str (grid ! h))) openHeaders"
    using assms(2) by (simp add: isOpenHeaderRow_def)
  note cols = collectHeaders_open_columns [OF this]
  show ?thesis
    by (simp add: parseOpenPositions_def findHeaderRow_open [OF assms] cols positionsLoop_rows
        rowsRead_def Let_def)
qed

theorem parseOpenPositions_rows_witness:
  "isOpenHeaderRow (positionsSheet ! 0) \<and>
   positions (parseOpenPositions positionsSheet) =
     [\<lparr>quantity = 10, openPrice = Some 5, currentPrice = Some 7, unrealizedGain = Some 20\<rparr>,
      \<lparr>quantity = - 5, openPrice = None, currentPrice = None, unrealizedGain = Some 20\<rparr>] \<and>
   unrealizedTotal (parseOpenPositions positionsSheet) = 40"
proof -
  have h: "isOpenHeaderRow (positionsSheet ! 0)"
    by (simp add: positionsSheet_def isOpenHeaderRow_def openHeaders_def normalize_eval)
  have c: "indexOf (map normalize_str (positionsSheet ! 0)) ''quantity'' = Some 0"
    "indexOf (map normalize_str (positionsSheet ! 0)) ''open price'' = Some 1"
    "indexOf (map normalize_str (positionsSheet ! 0)) ''current price'' = Some 2"
    "indexOf (map normalize_str (positionsSheet ! 0)) ''unrealized gain'' = Some 3"
    by (simp_all add: positionsSheet_def indexOf_def normalize_eval)
  have d: "drop (Suc 0) positionsSheet = [[''10'', ''5'', ''7'', []], [''-5'', [], [], ''20'']]"
    and len: "0 < length positionsSheet"
    by (simp_all add: positionsSheet_def)
  have n: "numberAt [''10'', ''5'', ''7'', []] (Some 0) = Some 10"
    "numberAt [''10'', ''5'', ''7'', []] (Some (Suc 0)) = Some 5"
    "numberAt [''10'', ''5'', ''7'', []] (Some 2) = Some 7"
    "numberAt [''10'', ''5'', ''7'', []] (Some 3) = None"
    "numberAt [''-5'', [], [], ''20''] (Some 0) = Some (- 5)"
    "numberAt [''-5'', [], [], ''20''] (Some (Suc 0)) = None"
    "numberAt [''-5'', [], [], ''20''] (Some 2) = None"
    "numberAt [''-5'', [], [], ''20''] (Some 3) = Some 20"
    by (simp_all add: cell_eval)
  show ?thesis
    using parseOpenPositions_rows [of 0 positionsSheet] h len
    by (simp add: c d n Let_def rowsRead_def rowsReadFrom_def absentAt_def positionAt_def
        gainAt_def qtyOf_def)
qed

end
